theory Spec2Isabelle
  imports Complex_Main
begin

section \<open>Cone-beam projector of mbirjax: the model\<close>

text \<open>
  The development embeds \<^verbatim>\<open>src/mbirjax/cone_beam.py\<close> in two layers.

  The first layer is the body of each function, evaluated eagerly. It shows what the
  statements of the file compute, and the departures of the arithmetic from the
  specification are stated on it. Its reading conventions:
  \<^item> a float (float32 in the arrays) is a real number and an integer array element
    (int32 after \<^verbatim>\<open>astype(int)\<close>) is an unbounded \<open>int\<close>; the scenes evaluated below stay
    far from the limits of both types. A path that returns divides by nothing that is 0:
    the quotients of lines 215, 302 and 303 are quotients of Python floats and raise
    ZeroDivisionError, line 218 guards the quotient of line 222, \<open>cos_alpha\<close> is positive
    and the cosine of a cone angle is not 0 (lemmas \<open>cos_alpha_positive\<close> and
    \<open>cone_angle_cos_nonzero\<close>);
  \<^item> an array is its shape and its elements in row-major order, and every array
    expression has the value NumPy and JAX give it: broadcasting aligns the trailing
    axes, the truth value of an array is defined for one element only, a negative index
    counts from the end, a gather clamps an index that is out of bounds and a
    scatter-add drops it;
  \<^item> the decorator of line 185 is left out, \<^verbatim>\<open>a.broadcast_to(s)\<close> is read as
    \<^verbatim>\<open>jnp.broadcast_to(a, s)\<close> and \<^verbatim>\<open>lax.index_add(a, idx, v)\<close> as the scatter-add
    \<^verbatim>\<open>a.at[idx].add(v)\<close>; the warnings are left out.

  The second layer is the code as it stands (subsection \<open>The code as decorated and as
  written\<close>): the kernel builder under \<^verbatim>\<open>jax.jit\<close> with only \<open>p\<close> static, and the forward
  projector with the calls of lines 175, 176 and 180 as they are written. Neither returns
  for any input.
\<close>

subsection \<open>Errors\<close>

datatype value_error =
    View_count          \<comment> \<open>line 63\<close>
  | Recon_slices        \<comment> \<open>line 69\<close>
  | Voxel_values_shape  \<comment> \<open>line 152\<close>
  | Invalid_geometry    \<comment> \<open>line 219\<close>
  | Truth_value         \<comment> \<open>the truth value of an array with other than one element\<close>
  | Unpack              \<comment> \<open>a tuple unpacked into the wrong number of names\<close>
  | Broadcast           \<comment> \<open>operands could not be broadcast together\<close>

datatype error =
    ValueError value_error
  | ZeroDivisionError
  | TypeError           \<comment> \<open>a gather from an array with an empty axis (line 123)\<close>
  | TracerError         \<comment> \<open>a traced value where \<^verbatim>\<open>jax.jit\<close> needs a concrete one\<close>
  | AttributeError      \<comment> \<open>a method or function the library does not have\<close>
  | BaseError

definition bind :: "error + 'a \<Rightarrow> ('a \<Rightarrow> error + 'b) \<Rightarrow> error + 'b" where
  "bind m f = (case m of Inl e \<Rightarrow> Inl e | Inr x \<Rightarrow> f x)"

subsection \<open>Arrays\<close>

datatype 'a ndarray = NDArray (shape: "nat list") (flat: "'a list")

definition wf :: "'a ndarray \<Rightarrow> bool" where
  "wf A = (length (flat A) = prod_list (shape A))"

definition mk2 :: "nat \<Rightarrow> nat \<Rightarrow> (nat \<Rightarrow> nat \<Rightarrow> 'a) \<Rightarrow> 'a ndarray" where
  "mk2 r c f = NDArray [r, c] (map (\<lambda>n. f (n div c) (n mod c)) [0..<r * c])"

definition at2 :: "'a ndarray \<Rightarrow> nat \<Rightarrow> nat \<Rightarrow> 'a" where
  "at2 A k t = flat A ! (k * (shape A ! 1) + t)"

definition map_nd :: "('a \<Rightarrow> 'b) \<Rightarrow> 'a ndarray \<Rightarrow> 'b ndarray" where
  "map_nd f A = NDArray (shape A) (map f (flat A))"

definition row :: "'a list \<Rightarrow> 'a ndarray" where
  \<comment> \<open>a vector of shape \<open>(n,)\<close> where it meets a matrix: shape \<open>(1, n)\<close>\<close>
  "row v = NDArray [1, length v] v"

definition column :: "'a list \<Rightarrow> 'a ndarray" where
  \<comment> \<open>\<^verbatim>\<open>v.reshape((-1, 1))\<close>\<close>
  "column v = NDArray [length v, 1] v"

definition broadcastable :: "nat \<Rightarrow> nat \<Rightarrow> bool" where
  "broadcastable a b = (a = b \<or> a = 1 \<or> b = 1)"

definition bdim :: "nat \<Rightarrow> nat \<Rightarrow> nat" where
  "bdim a b = (if a = 1 then b else a)"

definition bidx :: "nat \<Rightarrow> nat \<Rightarrow> nat" where
  "bidx n t = (if n = 1 then 0 else t)"

definition broadcast2 ::
  "('a \<Rightarrow> 'b \<Rightarrow> 'c) \<Rightarrow> 'a ndarray \<Rightarrow> 'b ndarray \<Rightarrow> error + 'c ndarray" where
  "broadcast2 f A B =
     (case (shape A, shape B) of
        ([r1, c1], [r2, c2]) \<Rightarrow>
          if broadcastable r1 r2 \<and> broadcastable c1 c2
          then Inr (mk2 (bdim r1 r2) (bdim c1 c2)
                 (\<lambda>k t. f (at2 A (bidx r1 k) (bidx c1 t)) (at2 B (bidx r2 k) (bidx c2 t))))
          else Inl (ValueError Broadcast)
      | _ \<Rightarrow> Inl (ValueError Broadcast))"

subsection \<open>Library functions\<close>

definition jnp_round :: "real \<Rightarrow> int" where
  \<comment> \<open>\<^verbatim>\<open>jnp.round(x).astype(int)\<close>: to the nearest integer, a tie to the even one\<close>
  "jnp_round x =
     (let f = \<lfloor>x\<rfloor>; d = x - of_int f
      in if d < 1 / 2 then f else if 1 / 2 < d then f + 1 else if even f then f else f + 1)"

definition arctan2 :: "real \<Rightarrow> real \<Rightarrow> real" where
  "arctan2 y x =
     (if 0 < x then arctan (y / x)
      else if x < 0 then (if 0 \<le> y then arctan (y / x) + pi else arctan (y / x) - pi)
      else if 0 < y then pi / 2 else if y < 0 then - (pi / 2) else 0)"

definition unravel_index :: "int list \<Rightarrow> nat \<times> nat \<Rightarrow> int list \<times> int list" where
  \<comment> \<open>\<^verbatim>\<open>jnp.unravel_index\<close> for a shape \<open>(R, C)\<close> with \<open>0 < R * C\<close>; it clips an index
      that is out of bounds\<close>
  "unravel_index indices shp =
     (case shp of (R, C) \<Rightarrow>
        let total = int (R * C);
            clipped = map (\<lambda>i. min (max i (- total)) (total - 1)) indices
        in (map (\<lambda>i. (i mod total) div int C) clipped, map (\<lambda>i. i mod int C) clipped))"

definition map3 :: "('a \<Rightarrow> 'b \<Rightarrow> 'c \<Rightarrow> 'd) \<Rightarrow> 'a list \<Rightarrow> 'b list \<Rightarrow> 'c list \<Rightarrow> 'd list" where
  "map3 f xs ys zs = map (\<lambda>(x, y, z). f x y z) (zip xs (zip ys zs))"

subsection \<open>Parameters\<close>

record geometry_params =
  delta_det_channel :: real
  delta_det_row :: real
  det_channel_offset :: real
  det_row_offset :: real
  det_rotation :: real
  source_detector_dist :: real
  magnification :: real
  delta_pixel_recon :: real
  recon_slice_offset :: real

record projector_params =
  sinogram_shape :: "nat list"
  recon_shape :: "nat list"
  geometry :: geometry_params

subsection \<open>Geometry mapper (lines 202 to 244)\<close>

definition recon_ijk_to_xyz ::
  "int \<Rightarrow> int \<Rightarrow> int \<Rightarrow> real \<Rightarrow> nat \<Rightarrow> nat \<Rightarrow> nat \<Rightarrow> real \<Rightarrow> real \<Rightarrow> real \<times> real \<times> real" where
  "recon_ijk_to_xyz i j k dpr num_recon_rows num_recon_cols num_recon_slices rso angle =
     (let x_tilde = dpr * (of_int i - (real num_recon_rows - 1) / 2);
          y_tilde = dpr * (of_int j - (real num_recon_cols - 1) / 2);
          x = cos angle * x_tilde - sin angle * y_tilde;
          y = sin angle * x_tilde + cos angle * y_tilde;
          z = dpr * (of_int k - (real num_recon_slices - 1) / 2) + rso
      in (x, y, z))"

definition geometry_xyz_to_uv_mag ::
  "real list \<Rightarrow> real list \<Rightarrow> real list \<Rightarrow> real \<Rightarrow> real \<Rightarrow>
     error + (real list \<times> real list \<times> real list)" where
  \<comment> \<open>\<open>x\<close>, \<open>y\<close> and \<open>z\<close> are arrays with one element for each (voxel, slice) pair. The
      condition of line 218 is the array \<^verbatim>\<open>(source_to_iso_dist - y) == 0\<close>; Python takes
      the truth value of an array of exactly one element and raises ValueError for any
      other array.\<close>
  "geometry_xyz_to_uv_mag x y z sdd mag =
     (if mag = 0 then Inl ZeroDivisionError
      else
        let source_to_iso_dist = sdd / mag
        in case map (\<lambda>yk. source_to_iso_dist - yk = 0) y of
             [b] \<Rightarrow>
               if b then Inl (ValueError Invalid_geometry)
               else
                 let pixel_mag = map (\<lambda>yk. sdd / (source_to_iso_dist - yk)) y
                 in Inr (map2 (*) pixel_mag x, map2 (*) pixel_mag z, pixel_mag)
           | _ \<Rightarrow> Inl (ValueError Truth_value))"

definition detector_uv_to_mn ::
  "real \<Rightarrow> real \<Rightarrow> real \<Rightarrow> real \<Rightarrow> real \<Rightarrow> real \<Rightarrow> real \<Rightarrow> nat \<Rightarrow> nat \<Rightarrow> real \<times> real" where
  "detector_uv_to_mn u v rot ddc ddr dco dro num_det_rows num_det_channels =
     (let u_tilde = cos rot * u + sin rot * v;
          v_tilde = - sin rot * u + cos rot * v;
          det_center_channels = (real num_det_channels - 1) / 2;
          det_center_rows = (real num_det_rows - 1) / 2;
          n = u_tilde / ddc + det_center_channels + dco;
          m = v_tilde / ddr + det_center_rows + dro
      in (m, n))"

subsection \<open>Sparse kernel builder (lines 186 to 351)\<close>

definition expand_ijk :: "int list \<Rightarrow> int list \<Rightarrow> nat \<Rightarrow> int list \<times> int list \<times> int list" where
  \<comment> \<open>lines 262 to 264: the tiles, transposed and flattened\<close>
  "expand_ijk row_index col_index num_recon_slices =
     (concat (map (replicate num_recon_slices) row_index),
      concat (map (replicate num_recon_slices) col_index),
      concat (replicate (length row_index) (map int [0..<num_recon_slices])))"

definition sparse_axis ::
  "nat \<Rightarrow> real list \<Rightarrow> real list \<Rightarrow> real list \<Rightarrow> real \<Rightarrow> real \<Rightarrow> nat \<Rightarrow>
     error + (real ndarray \<times> int ndarray)" where
  \<comment> \<open>The statements of lines 308 to 326, which lines 331 to 349 repeat on other
      variables: \<open>coord\<close> is the array that is rounded and subtracted, \<open>W\<close> the projected
      width, \<open>cos_alpha\<close> the divisor of line 325 or 348, \<open>delta_det\<close> the detector pitch,
      \<open>num_det\<close> the bound of the mask.\<close>
  "sparse_axis p coord W cos_alpha dpr delta_det num_det =
     (let index = mk2 (length coord) (2 * p + 1) (\<lambda>k t. jnp_round (coord ! k) + (int t - int p));
          tmp1 = map (\<lambda>w. (w + 1) / 2) W;
          tmp2 = map (\<lambda>w. (w - 1) / 2) W
      in bind (broadcast2 (\<lambda>c m. \<bar>of_int c - m\<bar>) index (column coord)) (\<lambda>delta.
         bind (broadcast2 max (row (map abs tmp2)) delta) (\<lambda>inner.
         bind (broadcast2 (-) (row tmp1) inner) (\<lambda>diff.
         let L = map_nd (\<lambda>d. max d 0) diff
         in bind (broadcast2 (*) (row (map (\<lambda>c. dpr / c) cos_alpha))
                    (map_nd (\<lambda>l. l / delta_det) L)) (\<lambda>value0.
            bind (broadcast2 (*) value0 (map_nd (\<lambda>c. of_bool (0 \<le> c)) index)) (\<lambda>value1.
            bind (broadcast2 (*) value1 (map_nd (\<lambda>c. of_bool (c < int num_det)) index))
              (\<lambda>val. Inr (val, index))))))))"

definition projected_geometry ::
  "int list \<Rightarrow> real \<Rightarrow> geometry_params \<Rightarrow> nat \<times> nat \<Rightarrow> nat \<times> nat \<times> nat \<Rightarrow>
     error + (real list \<times> real list \<times> real list \<times> real list \<times> real list \<times> real list)" where
  \<comment> \<open>lines 256 to 303; the result is \<open>(mp, np, cos_alpha_col, cos_alpha_row, W_col, W_row)\<close>\<close>
  "projected_geometry pixel_indices angle g det rec =
     (case (det, rec) of
        ((num_det_rows, num_det_channels), (num_recon_rows, num_recon_cols, num_recon_slices)) \<Rightarrow>
          let (row_index, col_index) =
                unravel_index pixel_indices (num_recon_rows, num_recon_cols);
              (i, j, k) = expand_ijk row_index col_index num_recon_slices;
              xyz = map3 (\<lambda>i j k. recon_ijk_to_xyz i j k (delta_pixel_recon g)
                      num_recon_rows num_recon_cols num_recon_slices
                      (recon_slice_offset g) angle) i j k;
              x = map fst xyz; y = map (fst \<circ> snd) xyz; z = map (snd \<circ> snd) xyz
          in bind (geometry_xyz_to_uv_mag x y z (source_detector_dist g) (magnification g))
               (\<lambda>(u, v, pixel_mag).
             let mn = map2 (\<lambda>u v. detector_uv_to_mn u v (det_rotation g)
                        (delta_det_channel g) (delta_det_row g) (det_channel_offset g)
                        (det_row_offset g) num_det_rows num_det_channels) u v;
                 mp = map fst mn; np = map snd mn;
                 cone_angle_channel = map (\<lambda>u. arctan2 u (source_detector_dist g)) u;
                 cone_angle_row = map (\<lambda>v. arctan2 v (source_detector_dist g)) v;
                 cos_alpha_col = map (\<lambda>c. max \<bar>cos (angle - c)\<bar> \<bar>sin (angle - c)\<bar>)
                                   cone_angle_channel;
                 cos_alpha_row = map (\<lambda>c. max \<bar>cos c\<bar> \<bar>sin c\<bar>) cone_angle_row
             in if delta_det_channel g = 0 then Inl ZeroDivisionError
                else
                  let W_col = map3 (\<lambda>pm ca c. pm * (delta_pixel_recon g / delta_det_channel g)
                                 * (ca / cos c)) pixel_mag cos_alpha_col cone_angle_channel
                  in if delta_det_row g = 0 then Inl ZeroDivisionError
                     else
                       let W_row = map3 (\<lambda>pm ca c. pm * (delta_pixel_recon g / delta_det_row g)
                                      * (ca / cos c)) pixel_mag cos_alpha_row cone_angle_row
                       in Inr (mp, np, cos_alpha_col, cos_alpha_row, W_col, W_row)))"

definition compute_sparse_Bij_Cij_single_view ::
  "int list \<Rightarrow> real \<Rightarrow> projector_params \<Rightarrow> nat \<Rightarrow>
     error + (real ndarray \<times> int ndarray \<times> real ndarray \<times> int ndarray)" where
  "compute_sparse_Bij_Cij_single_view pixel_indices angle pp p =
     (let g = geometry pp
      in case sinogram_shape pp of
        [num_views, num_det_rows, num_det_channels] \<Rightarrow>
         (case recon_shape pp of
            [num_recon_rows, num_recon_cols, num_recon_slices] \<Rightarrow>
              bind (projected_geometry pixel_indices angle g (num_det_rows, num_det_channels)
                      (num_recon_rows, num_recon_cols, num_recon_slices))
                (\<lambda>(mp, np, cos_alpha_col, cos_alpha_row, W_col, W_row).
              bind (sparse_axis p mp W_col cos_alpha_col (delta_pixel_recon g)
                      (delta_det_channel g) num_det_channels)
                (\<lambda>(Bij_value, Bij_channel).
              bind (sparse_axis p mp W_row cos_alpha_col (delta_pixel_recon g)
                      (delta_det_row g) num_det_rows)
                (\<lambda>(Cij_value, Cij_row).
              Inr (Bij_value, Bij_channel, Cij_value, Cij_row))))
          | _ \<Rightarrow> Inl (ValueError Unpack))
      | _ \<Rightarrow> Inl (ValueError Unpack))"

subsection \<open>Forward projector (lines 136 to 182)\<close>

definition compat_to :: "nat \<Rightarrow> nat \<Rightarrow> bool" where
  \<comment> \<open>an axis of extent \<open>a\<close> broadcast to the extent \<open>b\<close>\<close>
  "compat_to a b = (a = b \<or> a = 1)"

definition normalize_index :: "nat \<Rightarrow> int \<Rightarrow> int" where
  "normalize_index n i = (if i < 0 then i + int n else i)"

fun index_add1 :: "nat \<Rightarrow> nat \<Rightarrow> real list \<Rightarrow> int \<times> int \<times> real \<Rightarrow> real list" where
  "index_add1 Nr Nc img (r, c, v) =
     (let r' = normalize_index Nr r; c' = normalize_index Nc c
      in if 0 \<le> r' \<and> r' < int Nr \<and> 0 \<le> c' \<and> c' < int Nc
         then img[nat r' * Nc + nat c' := img ! (nat r' * Nc + nat c') + v]
         else img)"

definition index_add :: "nat \<Rightarrow> nat \<Rightarrow> real list \<Rightarrow> (int \<times> int \<times> real) list \<Rightarrow> real list" where
  "index_add Nr Nc img updates = foldl (index_add1 Nr Nc) img updates"

definition grid4 :: "nat \<Rightarrow> nat \<Rightarrow> nat \<Rightarrow> nat \<Rightarrow> (nat \<times> nat \<times> nat \<times> nat) list" where
  \<comment> \<open>the indices of an array of shape \<open>(n0, n1, n2, n3)\<close> in the order of \<^verbatim>\<open>reshape(-1)\<close>\<close>
  "grid4 n0 n1 n2 n3 =
     [(a, k, i, j). a \<leftarrow> [0..<n0], k \<leftarrow> [0..<n1], i \<leftarrow> [0..<n2], j \<leftarrow> [0..<n3]]"

definition forward_tap ::
  "real ndarray \<Rightarrow> int ndarray \<Rightarrow> real ndarray \<Rightarrow> nat \<times> nat \<times> nat \<times> nat \<Rightarrow> int \<times> int \<times> real" where
  \<comment> \<open>lines 167 to 176 at one index \<open>(a, k, i, j)\<close> of \<open>outer_products\<close>: the element of
      \<open>flat_rows\<close>, of \<open>flat_cols\<close> and of \<open>flat_outer_products\<close>\<close>
  "forward_tap Bij_value Cij_row voxel_values q =
     (case q of (a, k, i, j) \<Rightarrow>
        let w = shape Bij_value ! 1; rN = shape Cij_row ! 0; rw = shape Cij_row ! 1;
            n1 = shape voxel_values ! 1
        in (at2 Cij_row (bidx rN k) (bidx rw i),
            at2 Cij_row (bidx rN k) (bidx rw j),
            at2 Bij_value k i * at2 Bij_value k (bidx w j) * at2 voxel_values a (bidx n1 j)))"

definition forward_scatter ::
  "real ndarray \<Rightarrow> nat \<Rightarrow> nat \<Rightarrow> real ndarray \<Rightarrow> int ndarray \<Rightarrow> error + real ndarray" where
  \<comment> \<open>lines 163 to 182\<close>
  "forward_scatter voxel_values num_det_rows num_det_channels Bij_value Cij_row =
     (case (shape voxel_values, shape Bij_value, shape Cij_row) of
        ([n0, n1], [Nv, w], [rN, rw]) \<Rightarrow>
          if \<not> broadcastable w n1 then Inl (ValueError Broadcast)
          else if \<not> (compat_to rN Nv \<and> compat_to rw w \<and> compat_to rw (bdim w n1))
          then Inl (ValueError Broadcast)
          else
            let sinogram_view = replicate (num_det_rows * num_det_channels) 0;
                updates = map (forward_tap Bij_value Cij_row voxel_values)
                            (grid4 n0 Nv w (bdim w n1))
            in Inr (NDArray [num_det_rows, num_det_channels]
                     (index_add num_det_rows num_det_channels sinogram_view updates))
      | _ \<Rightarrow> Inl (ValueError Unpack))"

definition forward_project_voxels_one_view ::
  "real ndarray \<Rightarrow> int list \<Rightarrow> real \<Rightarrow> projector_params \<Rightarrow> error + real ndarray" where
  "forward_project_voxels_one_view voxel_values pixel_indices angle pp =
     (if length (shape voxel_values) \<noteq> 2 then Inl (ValueError Voxel_values_shape)
      else
        case sinogram_shape pp of
          [num_views, num_det_rows, num_det_channels] \<Rightarrow>
            bind (compute_sparse_Bij_Cij_single_view pixel_indices angle pp 1)
              (\<lambda>(Bij_value, Bij_channel, Cij_value, Cij_row).
                 forward_scatter voxel_values num_det_rows num_det_channels Bij_value Cij_row)
        | _ \<Rightarrow> Inl (ValueError Unpack))"

subsection \<open>Back projector (lines 85 to 133)\<close>

definition clamp_index :: "nat \<Rightarrow> int \<Rightarrow> nat" where
  "clamp_index n i = nat (max 0 (min (int n - 1) (normalize_index n i)))"

definition back_gather ::
  "real ndarray \<Rightarrow> nat \<Rightarrow> real ndarray \<Rightarrow> int ndarray \<Rightarrow> int ndarray \<Rightarrow> error + real list" where
  \<comment> \<open>lines 112 to 133\<close>
  "back_gather sinogram_view coeff_power Bij_value Bij_channel Cij_row =
     (case (shape Bij_value, shape Cij_row, shape Bij_channel, shape sinogram_view) of
        ([Nv, psf_width], [rN, rw], [cN, cw], [Nr, Nc]) \<Rightarrow>
          if \<not> (compat_to rN Nv \<and> compat_to rw psf_width
                \<and> compat_to cN Nv \<and> compat_to cw psf_width)
          then Inl (ValueError Broadcast)
          else if (Nr = 0 \<or> Nc = 0) \<and> Nv * psf_width \<noteq> 0 then Inl TypeError
          else
            Inr (map (\<lambda>k. sum_list
                   [flat sinogram_view
                      ! (clamp_index Nr (at2 Cij_row (bidx rN k) (bidx rw i)) * Nc
                         + clamp_index Nc (at2 Bij_channel (bidx cN k) (bidx cw j)))
                    * (at2 Bij_value k i
                       * of_int (at2 Cij_row (bidx rN k) (bidx rw j))) ^ coeff_power.
                    i \<leftarrow> [0..<psf_width], j \<leftarrow> [0..<psf_width]]) [0..<Nv])
      | _ \<Rightarrow> Inl (ValueError Unpack))"

definition back_project_one_view_to_voxel ::
  "real ndarray \<Rightarrow> int list \<Rightarrow> real \<Rightarrow> projector_params \<Rightarrow> nat \<Rightarrow> error + real list" where
  "back_project_one_view_to_voxel sinogram_view pixel_index angle pp coeff_power =
     (let sinogram_view_shape = 1 # shape sinogram_view;
          view_projector_params = pp\<lparr>sinogram_shape := sinogram_view_shape\<rparr>
      in bind (compute_sparse_Bij_Cij_single_view pixel_index angle view_projector_params 1)
           (\<lambda>(Bij_value, Bij_channel, Cij_value, Cij_row).
              back_gather sinogram_view coeff_power Bij_value Bij_channel Cij_row))"

subsection \<open>Parameter validation (lines 37 to 69)\<close>

definition view_params_array :: "real list \<Rightarrow> real ndarray" where
  \<comment> \<open>lines 42 to 44: the one flattened vector \<open>angles\<close>, stacked along axis 1\<close>
  "view_params_array angles = column angles"

definition verify_valid_params ::
  "error + unit \<Rightarrow> real ndarray \<Rightarrow> nat \<times> nat \<times> nat \<Rightarrow> nat \<times> nat \<times> nat \<Rightarrow> error + unit" where
  \<comment> \<open>\<open>base\<close> is the outcome of the base class's own check (line 56), which is not part
      of this file\<close>
  "verify_valid_params base vpa sino_shape rec_shape =
     bind base (\<lambda>_.
       case (sino_shape, rec_shape) of
         ((views, det_rows, det_channels), (rows, cols, slices)) \<Rightarrow>
           if hd (shape vpa) \<noteq> views then Inl (ValueError View_count)
           else if slices \<noteq> det_rows then Inl (ValueError Recon_slices)
           else Inr ())"

subsection \<open>The code as decorated and as written\<close>

datatype 'a staged = Static 'a | Traced 'a

definition concrete :: "'a staged \<Rightarrow> error + 'a" where
  \<comment> \<open>the use of a value where tracing needs a Python number: a shape, a repetition
      count, the condition of an \<^verbatim>\<open>if\<close>\<close>
  "concrete v = (case v of Static x \<Rightarrow> Inr x | Traced x \<Rightarrow> Inl TracerError)"

definition compute_sparse_Bij_Cij_single_view_jit ::
  "int list \<Rightarrow> real \<Rightarrow> projector_params \<Rightarrow> nat \<Rightarrow>
     error + (real ndarray \<times> int ndarray \<times> real ndarray \<times> int ndarray)" where
  \<comment> \<open>The builder under \<^verbatim>\<open>@partial(jax.jit, static_argnums=3)\<close> (line 185): \<open>p\<close> is
      static, and the numbers in \<open>projector_params\<close> are leaves of a traced argument. The
      unpackings of lines 251 to 254 depend on the lengths of the tuples only. Line 262
      passes \<open>num_recon_slices\<close> to \<^verbatim>\<open>jnp.tile\<close> as a repetition count, which has to be
      concrete (so have the count of \<^verbatim>\<open>jnp.arange\<close> on line 264 and the condition of
      line 218).\<close>
  "compute_sparse_Bij_Cij_single_view_jit pixel_indices angle pp p =
     (case sinogram_shape pp of
        [num_views, num_det_rows, num_det_channels] \<Rightarrow>
          (case recon_shape pp of
             [num_recon_rows, num_recon_cols, num_recon_slices] \<Rightarrow>
               bind (concrete (Traced num_recon_slices))
                 (\<lambda>_. compute_sparse_Bij_Cij_single_view pixel_indices angle pp p)
           | _ \<Rightarrow> Inl (ValueError Unpack))
      | _ \<Rightarrow> Inl (ValueError Unpack))"

definition forward_project_voxels_one_view_as_written ::
  "(int list \<Rightarrow> real \<Rightarrow> projector_params \<Rightarrow> nat \<Rightarrow>
      error + (real ndarray \<times> int ndarray \<times> real ndarray \<times> int ndarray)) \<Rightarrow>
   real ndarray \<Rightarrow> int list \<Rightarrow> real \<Rightarrow> projector_params \<Rightarrow> error + real ndarray" where
  \<comment> \<open>Lines 151 to 182 with the calls as they are written; \<open>builder\<close> is the kernel builder
      called on line 156. After the product of line 167, line 175 calls the method
      \<^verbatim>\<open>broadcast_to\<close> of a JAX array, which has none (nor has \<^verbatim>\<open>jax.lax\<close> the function
      \<^verbatim>\<open>index_add\<close> of line 180).\<close>
  "forward_project_voxels_one_view_as_written builder voxel_values pixel_indices angle pp =
     (if length (shape voxel_values) \<noteq> 2 then Inl (ValueError Voxel_values_shape)
      else
        case sinogram_shape pp of
          [num_views, num_det_rows, num_det_channels] \<Rightarrow>
            bind (builder pixel_indices angle pp 1)
              (\<lambda>(Bij_value, Bij_channel, Cij_value, Cij_row).
                 case (shape voxel_values, shape Bij_value, shape Cij_row) of
                   ([n0, n1], [Nv, w], [rN, rw]) \<Rightarrow>
                     if \<not> broadcastable w n1 then Inl (ValueError Broadcast)
                     else Inl AttributeError
                 | _ \<Rightarrow> Inl (ValueError Unpack))
        | _ \<Rightarrow> Inl (ValueError Unpack))"

section \<open>Definitions used by the statements\<close>

subsection \<open>Closed forms for one (voxel, slice) pair\<close>

definition axis_index :: "nat \<Rightarrow> real \<Rightarrow> nat \<Rightarrow> int" where
  \<comment> \<open>entry \<open>t\<close> of the index array of \<open>sparse_axis\<close> for the coordinate \<open>m\<close>\<close>
  "axis_index p m t = jnp_round m + (int t - int p)"

definition axis_value :: "nat \<Rightarrow> real \<Rightarrow> real \<Rightarrow> real \<Rightarrow> real \<Rightarrow> real \<Rightarrow> nat \<Rightarrow> nat \<Rightarrow> real" where
  \<comment> \<open>entry \<open>t\<close> of the value array of \<open>sparse_axis\<close> for the coordinate \<open>m\<close>, the width
      \<open>W\<close> and the divisor \<open>ca\<close>\<close>
  "axis_value p m W ca dpr dd nd t =
     dpr / ca * (max ((W + 1) / 2 - max \<bar>(W - 1) / 2\<bar> \<bar>of_int (axis_index p m t) - m\<bar>) 0 / dd)
       * of_bool (0 \<le> axis_index p m t) * of_bool (axis_index p m t < int nd)"

subsection \<open>Linear combinations and inner products of arrays\<close>

definition lincomb :: "real \<Rightarrow> real list \<Rightarrow> real \<Rightarrow> real list \<Rightarrow> real list" where
  "lincomb a xs b ys = map2 (\<lambda>x y. a * x + b * y) xs ys"

definition lincomb_nd :: "real \<Rightarrow> real ndarray \<Rightarrow> real \<Rightarrow> real ndarray \<Rightarrow> real ndarray" where
  \<comment> \<open>\<open>a * x + b * y\<close> for two arrays of one shape\<close>
  "lincomb_nd a x b y = NDArray (shape x) (lincomb a (flat x) b (flat y))"

definition zeros_nd :: "nat list \<Rightarrow> real ndarray" where
  "zeros_nd s = NDArray s (replicate (prod_list s) 0)"

definition dot :: "real list \<Rightarrow> real list \<Rightarrow> real" where
  "dot xs ys = sum_list (map2 (*) xs ys)"

subsection \<open>The operations as the specification words them\<close>

definition spec_candidates :: "nat \<Rightarrow> real \<Rightarrow> int list" where
  \<comment> \<open>the \<open>2p+1\<close> consecutive integers centred at the rounding of a fractional coordinate\<close>
  "spec_candidates p f = map (\<lambda>t. jnp_round f + (int t - int p)) [0..<2 * p + 1]"

definition spec_overlap :: "real \<Rightarrow> real \<Rightarrow> int \<Rightarrow> real" where
  \<comment> \<open>\<open>L = max((W+1)/2 - max(|W-1|/2, |candidate - fractional_index|), 0)\<close>\<close>
  "spec_overlap W f c = max ((W + 1) / 2 - max (\<bar>W - 1\<bar> / 2) \<bar>of_int c - f\<bar>) 0"

definition spec_weight :: "real \<Rightarrow> real \<Rightarrow> real \<Rightarrow> real \<Rightarrow> real" where
  \<comment> \<open>\<open>(voxel_pitch / cos_alpha) \<cdot> (L / detector_pitch)\<close>\<close>
  "spec_weight voxel_pitch cos_alpha L detector_pitch =
     (voxel_pitch / cos_alpha) * (L / detector_pitch)"

definition spec_forward ::
  "real ndarray \<Rightarrow> int ndarray \<Rightarrow> real ndarray \<Rightarrow> int ndarray \<Rightarrow> real list \<Rightarrow> nat \<Rightarrow> nat \<Rightarrow> real list" where
  \<comment> \<open>for each pair \<open>k\<close> the outer product of the row weights \<open>Cij_value\<close> and the channel
      weights \<open>Bij_value\<close>, scaled by the voxel value of the pair and summed into a zero
      image at \<open>(Cij_row, Bij_channel)\<close>\<close>
  "spec_forward Bij_value Bij_channel Cij_value Cij_row values Nr Nc =
     index_add Nr Nc (replicate (Nr * Nc) 0)
       [(at2 Cij_row k i, at2 Bij_channel k j,
         at2 Cij_value k i * at2 Bij_value k j * values ! k).
        k \<leftarrow> [0..<shape Bij_value ! 0], i \<leftarrow> [0..<shape Cij_value ! 1],
        j \<leftarrow> [0..<shape Bij_value ! 1]]"

definition spec_back ::
  "real ndarray \<Rightarrow> int ndarray \<Rightarrow> real ndarray \<Rightarrow> int ndarray \<Rightarrow> real ndarray \<Rightarrow> nat \<Rightarrow> real list" where
  \<comment> \<open>for each pair \<open>k\<close> the detector values gathered at \<open>(Cij_row, Bij_channel)\<close>, each
      weighted by \<open>(Bij_value \<cdot> Cij_value) ^ coeff_power\<close> and summed over the footprint\<close>
  "spec_back Bij_value Bij_channel Cij_value Cij_row sinogram_view coeff_power =
     map (\<lambda>k. sum_list
            [flat sinogram_view
               ! (clamp_index (shape sinogram_view ! 0) (at2 Cij_row k i) * (shape sinogram_view ! 1)
                  + clamp_index (shape sinogram_view ! 1) (at2 Bij_channel k j))
             * (at2 Bij_value k j * at2 Cij_value k i) ^ coeff_power.
             i \<leftarrow> [0..<shape Cij_value ! 1], j \<leftarrow> [0..<shape Bij_value ! 1]])
       [0..<shape Bij_value ! 0]"

subsection \<open>Concrete scenes\<close>

definition scene_geometry :: geometry_params where
  "scene_geometry =
     \<lparr>delta_det_channel = 2, delta_det_row = 1, det_channel_offset = 0, det_row_offset = 0,
      det_rotation = 0, source_detector_dist = 4, magnification = 1, delta_pixel_recon = 1,
      recon_slice_offset = 0\<rparr>"

definition one_voxel :: projector_params where
  \<comment> \<open>a detector of 1 row and 5 channels, a volume of one voxel in one slice\<close>
  "one_voxel = \<lparr>sinogram_shape = [1, 1, 5], recon_shape = [1, 1, 1], geometry = scene_geometry\<rparr>"

definition two_voxels :: projector_params where
  \<comment> \<open>the same detector, a volume of two voxels in one slice\<close>
  "two_voxels = \<lparr>sinogram_shape = [1, 1, 5], recon_shape = [1, 2, 1], geometry = scene_geometry\<rparr>"

section \<open>Arrays and broadcasting\<close>

lemma shape_mk2 [simp]: "shape (mk2 r c f) = [r, c]"
  by (simp add: mk2_def)

lemma at2_mk2: "k < r \<Longrightarrow> t < c \<Longrightarrow> at2 (mk2 r c f) k t = f k t"
proof -
  assume k: "k < r" and t: "t < c"
  have "k * c + t < r * c"
  proof -
    have "k * c + t < k * c + c" using t by simp
    also have "\<dots> = Suc k * c" by simp
    also have "\<dots> \<le> r * c" using k by (intro mult_le_mono1) simp
    finally show ?thesis .
  qed
  then show ?thesis using t by (simp add: at2_def mk2_def)
qed

lemma at2_mk2_row [simp]: "t < c \<Longrightarrow> at2 (mk2 (Suc 0) c f) 0 t = f 0 t"
  by (rule at2_mk2) simp_all

lemma mk2_cong:
  assumes "\<And>k t. k < r \<Longrightarrow> t < c \<Longrightarrow> f k t = g k t"
  shows "mk2 r c f = mk2 r c g"
proof -
  have "map (\<lambda>n. f (n div c) (n mod c)) [0..<r * c] = map (\<lambda>n. g (n div c) (n mod c)) [0..<r * c]"
  proof (rule map_cong[OF refl])
    fix n assume "n \<in> set [0..<r * c]"
    then have n: "n < r * c" by simp
    then have c: "0 < c" by (cases c) auto
    have "n div c < r" using n c by (simp add: less_mult_imp_div_less mult.commute)
    moreover have "n mod c < c" using c by simp
    ultimately show "f (n div c) (n mod c) = g (n div c) (n mod c)" using assms by blast
  qed
  then show ?thesis by (simp add: mk2_def)
qed

lemma map_nd_mk2: "map_nd h (mk2 r c g) = mk2 r c (\<lambda>k t. h (g k t))"
  by (simp add: map_nd_def mk2_def)

lemma bidx_less: "t < c \<Longrightarrow> bidx c t = t"
  by (auto simp: bidx_def)

lemma at2_single [simp]: "at2 (NDArray [Suc 0, Suc 0] [v]) 0 0 = v"
  by (simp add: at2_def)

lemma bidx_one [simp]: "bidx (Suc 0) k = 0"
  by (simp add: bidx_def)

lemma bdim_simps [simp]: "bdim (Suc 0) c = c" "bdim c (Suc 0) = c" "bdim c c = c"
  by (auto simp: bdim_def)

lemma broadcast2_scalar_left:
  "broadcast2 f (NDArray [Suc 0, Suc 0] [v]) (mk2 (Suc 0) c g) = Inr (mk2 (Suc 0) c (\<lambda>k t. f v (g 0 t)))"
proof -
  have "mk2 (Suc 0) c
          (\<lambda>k t. f (at2 (NDArray [Suc 0, Suc 0] [v]) 0 0) (at2 (mk2 (Suc 0) c g) 0 (bidx c t)))
        = mk2 (Suc 0) c (\<lambda>k t. f v (g 0 t))"
    by (rule mk2_cong) (simp add: bidx_less)
  then show ?thesis by (simp add: broadcast2_def broadcastable_def)
qed

lemma broadcast2_scalar_right:
  "broadcast2 f (mk2 (Suc 0) c g) (NDArray [Suc 0, Suc 0] [v]) = Inr (mk2 (Suc 0) c (\<lambda>k t. f (g 0 t) v))"
proof -
  have "mk2 (Suc 0) c
          (\<lambda>k t. f (at2 (mk2 (Suc 0) c g) 0 (bidx c t)) (at2 (NDArray [Suc 0, Suc 0] [v]) 0 0))
        = mk2 (Suc 0) c (\<lambda>k t. f (g 0 t) v)"
    by (rule mk2_cong) (simp add: bidx_less)
  then show ?thesis by (simp add: broadcast2_def broadcastable_def)
qed

lemma broadcast2_rows:
  "broadcast2 f (mk2 (Suc 0) c g) (mk2 (Suc 0) c h) = Inr (mk2 (Suc 0) c (\<lambda>k t. f (g 0 t) (h 0 t)))"
proof -
  have "mk2 (Suc 0) c
          (\<lambda>k t. f (at2 (mk2 (Suc 0) c g) 0 (bidx c t)) (at2 (mk2 (Suc 0) c h) 0 (bidx c t)))
        = mk2 (Suc 0) c (\<lambda>k t. f (g 0 t) (h 0 t))"
    by (rule mk2_cong) (simp add: bidx_less)
  then show ?thesis by (simp add: broadcast2_def broadcastable_def)
qed

lemma sparse_axis_single:
  "sparse_axis p [m] [W] [ca] dpr dd nd =
     Inr (mk2 (Suc 0) (2 * p + 1) (\<lambda>k. axis_value p m W ca dpr dd nd),
          mk2 (Suc 0) (2 * p + 1) (\<lambda>k. axis_index p m))"
proof -
  have idx: "mk2 (length [m]) (2 * p + 1) (\<lambda>k t. jnp_round ([m] ! k) + (int t - int p))
        = mk2 (Suc 0) (2 * p + 1) (\<lambda>k. axis_index p m)"
    unfolding axis_index_def by simp (rule mk2_cong, simp)
  show ?thesis
    unfolding sparse_axis_def Let_def idx
    by (simp add: row_def column_def broadcast2_scalar_left
      broadcast2_scalar_right broadcast2_rows map_nd_mk2 bind_def axis_value_def[abs_def])
qed


section \<open>The kernel builder returns for one pair only\<close>

lemma bind_Inr: "bind m f = Inr y \<longleftrightarrow> (\<exists>x. m = Inr x \<and> f x = Inr y)"
  by (cases m) (simp_all add: bind_def)

lemma length_concat_replicate: "length (concat (map (replicate n) xs)) = length xs * n"
  by (induction xs) simp_all

lemma length_concat_copies: "length (concat (replicate n xs)) = n * length xs"
  by (induction n) simp_all

lemma geometry_xyz_to_uv_mag_Inr:
  assumes "geometry_xyz_to_uv_mag x y z sdd mag = Inr (u, v, pm)"
  shows "length y = 1 \<and> length pm = 1 \<and> length u = min 1 (length x) \<and> length v = min 1 (length z)"
proof -
  have m: "mag \<noteq> 0" using assms by (auto simp: geometry_xyz_to_uv_mag_def)
  obtain b where b: "map (\<lambda>yk. sdd / mag - yk = 0) y = [b]"
    using assms m by (auto simp: geometry_xyz_to_uv_mag_def Let_def split: list.splits)
  then have ly: "length y = 1"
    by (metis length_map length_Cons list.size(3) One_nat_def)
  have "pm = map (\<lambda>yk. sdd / (sdd / mag - yk)) y \<and> u = map2 (*) pm x \<and> v = map2 (*) pm z"
    using assms m b by (auto simp: geometry_xyz_to_uv_mag_def Let_def split: if_splits)
  then show ?thesis using ly by simp
qed

lemma projected_geometry_single:
  assumes "projected_geometry pis angle g (nr, nc) (R, C, S) = Inr (mp, np', cac, car, Wc, Wr)"
  shows "length pis * S = 1 \<and> length mp = 1 \<and> length np' = 1 \<and> length cac = 1 \<and> length car = 1
           \<and> length Wc = 1 \<and> length Wr = 1"
proof -
  obtain row_index col_index where rc: "unravel_index pis (R, C) = (row_index, col_index)"
    by force
  have lr: "length row_index = length pis" "length col_index = length pis"
    using rc by (auto simp: unravel_index_def Let_def)
  obtain i j k where ijk: "expand_ijk row_index col_index S = (i, j, k)"
    by (cases "expand_ijk row_index col_index S") auto
  have li: "length i = length pis * S" "length j = length pis * S" "length k = length pis * S"
    using ijk lr by (auto simp: expand_ijk_def length_concat_replicate length_concat_copies)
  define xyz where "xyz = map3 (\<lambda>i j k. recon_ijk_to_xyz i j k (delta_pixel_recon g) R C S
                      (recon_slice_offset g) angle) i j k"
  have lx: "length xyz = length pis * S"
    using li by (simp add: xyz_def map3_def)
  have "\<exists>u v pm. geometry_xyz_to_uv_mag (map fst xyz) (map (fst \<circ> snd) xyz)
        (map (snd \<circ> snd) xyz) (source_detector_dist g) (magnification g) = Inr (u, v, pm)
      \<and> length mp = min (length u) (length v) \<and> length np' = min (length u) (length v)
      \<and> length cac = length u \<and> length car = length v
      \<and> length Wc = min (length pm) (length u) \<and> length Wr = min (length pm) (length v)"
    using assms rc ijk unfolding projected_geometry_def xyz_def
    by (auto simp: Let_def bind_Inr map3_def split: if_splits)
  then obtain u v pm where geo: "geometry_xyz_to_uv_mag (map fst xyz) (map (fst \<circ> snd) xyz)
        (map (snd \<circ> snd) xyz) (source_detector_dist g) (magnification g) = Inr (u, v, pm)"
     and len: "length mp = min (length u) (length v)" "length np' = min (length u) (length v)"
      "length cac = length u" "length car = length v"
      "length Wc = min (length pm) (length u)" "length Wr = min (length pm) (length v)"
    by blast
  from geometry_xyz_to_uv_mag_Inr[OF geo] have g1: "length xyz = 1" "length pm = 1"
     "length u = 1" "length v = 1" by auto
  show ?thesis using len g1 lx by simp
qed

lemma length_1_conv: "length xs = Suc 0 \<longleftrightarrow> (\<exists>x. xs = [x])"
  by (cases xs) auto

lemma compute_sparse_Inr:
  assumes "compute_sparse_Bij_Cij_single_view pis angle pp p = Inr (Bv, Bc, Cv, Cr)"
  shows "\<exists>nv nr nc R C S m n cac car Wc Wr.
      sinogram_shape pp = [nv, nr, nc] \<and> recon_shape pp = [R, C, S] \<and> length pis * S = 1 \<and>
      projected_geometry pis angle (geometry pp) (nr, nc) (R, C, S)
        = Inr ([m], [n], [cac], [car], [Wc], [Wr]) \<and>
      Bv = mk2 (Suc 0) (2 * p + 1) (\<lambda>k. axis_value p m Wc cac (delta_pixel_recon (geometry pp))
             (delta_det_channel (geometry pp)) nc) \<and>
      Bc = mk2 (Suc 0) (2 * p + 1) (\<lambda>k. axis_index p m) \<and>
      Cv = mk2 (Suc 0) (2 * p + 1) (\<lambda>k. axis_value p m Wr cac (delta_pixel_recon (geometry pp))
             (delta_det_row (geometry pp)) nr) \<and>
      Cr = mk2 (Suc 0) (2 * p + 1) (\<lambda>k. axis_index p m)"
proof -
  obtain nv nr nc where ss: "sinogram_shape pp = [nv, nr, nc]"
    using assms unfolding compute_sparse_Bij_Cij_single_view_def Let_def
    by (auto split: list.splits)
  obtain R C S where rs: "recon_shape pp = [R, C, S]"
    using assms unfolding compute_sparse_Bij_Cij_single_view_def Let_def ss
    by (auto split: list.splits)
  obtain mp np' cacs cars Wcs Wrs where
    pg: "projected_geometry pis angle (geometry pp) (nr, nc) (R, C, S)
           = Inr (mp, np', cacs, cars, Wcs, Wrs)"
    and ax: "bind (sparse_axis p mp Wcs cacs (delta_pixel_recon (geometry pp))
                      (delta_det_channel (geometry pp)) nc)
                (\<lambda>(Bij_value, Bij_channel).
              bind (sparse_axis p mp Wrs cacs (delta_pixel_recon (geometry pp))
                      (delta_det_row (geometry pp)) nr)
                (\<lambda>(Cij_value, Cij_row).
              Inr (Bij_value, Bij_channel, Cij_value, Cij_row))) = Inr (Bv, Bc, Cv, Cr)"
    using assms unfolding compute_sparse_Bij_Cij_single_view_def Let_def ss rs
    by (auto simp: bind_Inr)
  from projected_geometry_single[OF pg]
  obtain m n cac car Wc Wr where sing: "mp = [m]" "np' = [n]" "cacs = [cac]" "cars = [car]"
      "Wcs = [Wc]" "Wrs = [Wr]" and one: "length pis * S = 1"
    by (auto simp: length_1_conv)
  have "Bv = mk2 (Suc 0) (2 * p + 1) (\<lambda>k. axis_value p m Wc cac (delta_pixel_recon (geometry pp))
             (delta_det_channel (geometry pp)) nc) \<and>
      Bc = mk2 (Suc 0) (2 * p + 1) (\<lambda>k. axis_index p m) \<and>
      Cv = mk2 (Suc 0) (2 * p + 1) (\<lambda>k. axis_value p m Wr cac (delta_pixel_recon (geometry pp))
             (delta_det_row (geometry pp)) nr) \<and>
      Cr = mk2 (Suc 0) (2 * p + 1) (\<lambda>k. axis_index p m)"
    using ax unfolding sing sparse_axis_single by (auto simp: bind_def)
  then show ?thesis using ss rs one pg sing by blast
qed

lemma nth_concat_replicate:
  "n < length xs \<Longrightarrow> s < S \<Longrightarrow> concat (map (replicate S) xs) ! (n * S + s) = xs ! n"
proof (induction xs arbitrary: n)
  case Nil
  then show ?case by simp
next
  case (Cons x xs)
  show ?case
  proof (cases n)
    case 0
    then show ?thesis using Cons.prems by (simp add: nth_append)
  next
    case (Suc m)
    then have "m < length xs" using Cons.prems by simp
    from Cons.IH[OF this Cons.prems(2)] Suc show ?thesis
      by (simp add: nth_append)
  qed
qed

lemma nth_concat_copies:
  "n < N \<Longrightarrow> s < length ys \<Longrightarrow> concat (replicate N ys) ! (n * length ys + s) = ys ! s"
proof (induction N arbitrary: n)
  case 0
  then show ?case by simp
next
  case (Suc N)
  show ?case
  proof (cases n)
    case 0
    then show ?thesis using Suc.prems by (simp add: nth_append)
  next
    case (Suc m)
    then have "m < N" using Suc.prems by simp
    from Suc.IH[OF this Suc.prems(2)] Suc show ?thesis
      by (simp add: nth_append)
  qed
qed

lemma expand_ijk_slice_fastest:
  assumes "length col_index = length row_index" "n < length row_index" "s < S"
    and "expand_ijk row_index col_index S = (i, j, k)"
  shows "i ! (n * S + s) = row_index ! n \<and> j ! (n * S + s) = col_index ! n \<and> k ! (n * S + s) = int s"
proof -
  have "concat (replicate (length row_index) (map int [0..<S])) ! (n * length (map int [0..<S]) + s)
          = map int [0..<S] ! s"
    by (rule nth_concat_copies) (use assms in simp_all)
  then show ?thesis using assms
    by (auto simp: expand_ijk_def nth_concat_replicate)
qed

lemma compute_sparse_returns_for_one_pair:
  assumes "compute_sparse_Bij_Cij_single_view pis angle pp p = Inr r"
    and "recon_shape pp = [R, C, S]"
  shows "length pis * S = 1"
  using compute_sparse_Inr[of pis angle pp p "fst r" "fst (snd r)" "fst (snd (snd r))" "snd (snd (snd r))"]
    assms by auto

text \<open>
  When the eager body returns, a weight whose candidate index is out of the detector is 0.
\<close>

lemma eager_builder_masks_out_of_bounds:
  assumes "compute_sparse_Bij_Cij_single_view pixel_indices angle pp p
             = Inr (Bij_value, Bij_channel, Cij_value, Cij_row)"
    and "sinogram_shape pp = [num_views, num_det_rows, num_det_channels]"
    and "recon_shape pp = [num_recon_rows, num_recon_cols, num_recon_slices]"
  shows "shape Bij_value = [length pixel_indices * num_recon_slices, 2 * p + 1]
       \<and> shape Bij_channel = [length pixel_indices * num_recon_slices, 2 * p + 1]
       \<and> shape Cij_value = [length pixel_indices * num_recon_slices, 2 * p + 1]
       \<and> shape Cij_row = [length pixel_indices * num_recon_slices, 2 * p + 1]
       \<and> wf Bij_value \<and> wf Bij_channel \<and> wf Cij_value \<and> wf Cij_row
       \<and> (\<forall>k t. k < length pixel_indices * num_recon_slices \<longrightarrow> t < 2 * p + 1 \<longrightarrow>
             (at2 Bij_channel k t < 0 \<or> int num_det_channels \<le> at2 Bij_channel k t) \<longrightarrow>
             at2 Bij_value k t = 0)
       \<and> (\<forall>k t. k < length pixel_indices * num_recon_slices \<longrightarrow> t < 2 * p + 1 \<longrightarrow>
             (at2 Cij_row k t < 0 \<or> int num_det_rows \<le> at2 Cij_row k t) \<longrightarrow>
             at2 Cij_value k t = 0)"
proof -
  from compute_sparse_Inr[OF assms(1)] assms(2,3)
  obtain m cac Wc Wr where one: "length pixel_indices * num_recon_slices = 1"
    and B: "Bij_value = mk2 (Suc 0) (2 * p + 1) (\<lambda>k. axis_value p m Wc cac
              (delta_pixel_recon (geometry pp)) (delta_det_channel (geometry pp)) num_det_channels)"
           "Bij_channel = mk2 (Suc 0) (2 * p + 1) (\<lambda>k. axis_index p m)"
    and C: "Cij_value = mk2 (Suc 0) (2 * p + 1) (\<lambda>k. axis_value p m Wr cac
              (delta_pixel_recon (geometry pp)) (delta_det_row (geometry pp)) num_det_rows)"
           "Cij_row = mk2 (Suc 0) (2 * p + 1) (\<lambda>k. axis_index p m)"
    by auto
  have wfm: "\<And>f::nat \<Rightarrow> nat \<Rightarrow> real. wf (mk2 (Suc 0) (2 * p + 1) f)"
            "\<And>f::nat \<Rightarrow> nat \<Rightarrow> int. wf (mk2 (Suc 0) (2 * p + 1) f)"
    by (simp_all add: wf_def mk2_def)
  have zB: "at2 Bij_value k t = 0"
    if "k < 1" "t < 2 * p + 1" "at2 Bij_channel k t < 0 \<or> int num_det_channels \<le> at2 Bij_channel k t"
    for k t using that unfolding B by (auto simp: at2_mk2 axis_value_def)
  have zC: "at2 Cij_value k t = 0"
    if "k < 1" "t < 2 * p + 1" "at2 Cij_row k t < 0 \<or> int num_det_rows \<le> at2 Cij_row k t"
    for k t using that unfolding C by (auto simp: at2_mk2 axis_value_def)
  show ?thesis
    unfolding one using zB zC wfm by (simp add: B C)
qed

section \<open>Divisors on a path that returns\<close>

lemma cos_alpha_positive: "0 < max \<bar>cos (t::real)\<bar> \<bar>sin t\<bar>"
proof -
  have "cos t \<noteq> 0 \<or> sin t \<noteq> 0"
  proof (rule ccontr)
    assume "\<not> (cos t \<noteq> 0 \<or> sin t \<noteq> 0)"
    then have "(sin t)\<^sup>2 + (cos t)\<^sup>2 = 0" by simp
    then show False by (simp only: sin_cos_squared_add)
  qed
  then show ?thesis by auto
qed

lemma cos_arctan2_nonzero:
  assumes "x \<noteq> 0 \<or> y = 0"
  shows "cos (arctan2 y x) \<noteq> 0"
  using assms cos_arctan_not_zero[of "y / x"]
  by (auto simp: arctan2_def cos_diff cos_add)

lemma cone_angle_cos_nonzero:
  assumes "geometry_xyz_to_uv_mag x y z sdd mag = Inr (u, v, pm)"
    and "a \<in> set u \<union> set v"
  shows "cos (arctan2 a sdd) \<noteq> 0"
proof (cases "sdd = 0")
  case True
  have "pm = map (\<lambda>yk. sdd / (sdd / mag - yk)) y \<and> u = map2 (*) pm x \<and> v = map2 (*) pm z"
    using assms(1) by (auto simp: geometry_xyz_to_uv_mag_def Let_def split: if_splits list.splits)
  then have "a = 0" using assms(2) True by (auto simp: set_zip)
  then show ?thesis by (simp add: cos_arctan2_nonzero)
next
  case False
  then show ?thesis by (simp add: cos_arctan2_nonzero)
qed

section \<open>The errors of each stage\<close>

lemma broadcast2_error: "broadcast2 f A B = Inl e \<Longrightarrow> e = ValueError Broadcast"
  by (auto simp: broadcast2_def split: list.splits if_splits)

lemma bind_Inl: "bind m f = Inl e \<longleftrightarrow> (m = Inl e \<or> (\<exists>x. m = Inr x \<and> f x = Inl e))"
  by (cases m) (simp_all add: bind_def)

lemma sparse_axis_error: "sparse_axis p coord W ca dpr dd nd = Inl e \<Longrightarrow> e = ValueError Broadcast"
  unfolding sparse_axis_def Let_def
  by (auto simp: bind_Inl dest: broadcast2_error)

lemma geometry_xyz_to_uv_mag_error:
  "geometry_xyz_to_uv_mag x y z sdd mag = Inl e \<Longrightarrow>
     e = ZeroDivisionError \<or> e = ValueError Invalid_geometry \<or> e = ValueError Truth_value"
  by (auto simp: geometry_xyz_to_uv_mag_def Let_def split: if_splits list.splits)

lemma projected_geometry_error:
  "projected_geometry pis angle g det rec = Inl e \<Longrightarrow>
     e = ZeroDivisionError \<or> e = ValueError Invalid_geometry \<or> e = ValueError Truth_value"
  unfolding projected_geometry_def Let_def
  by (auto simp: bind_Inl split: prod.splits if_splits dest: geometry_xyz_to_uv_mag_error)

lemma compute_sparse_error:
  "compute_sparse_Bij_Cij_single_view pis angle pp p = Inl e \<Longrightarrow>
     e \<in> {ZeroDivisionError, ValueError Invalid_geometry, ValueError Truth_value,
          ValueError Unpack, ValueError Broadcast}"
  unfolding compute_sparse_Bij_Cij_single_view_def Let_def
  by (auto simp: bind_Inl split: list.splits prod.splits dest: projected_geometry_error sparse_axis_error)

lemma forward_scatter_error:
  "forward_scatter vv nr nc Bv Cr = Inl e \<Longrightarrow> e = ValueError Broadcast \<or> e = ValueError Unpack"
  unfolding forward_scatter_def Let_def
  by (simp split: list.splits if_splits prod.splits) 

lemma forward_rank2_error:
  assumes "length (shape vv) = 2"
  shows "forward_project_voxels_one_view vv pis angle pp \<noteq> Inl (ValueError Voxel_values_shape)"
proof
  assume a: "forward_project_voxels_one_view vv pis angle pp = Inl (ValueError Voxel_values_shape)"
  show False using a assms unfolding forward_project_voxels_one_view_def
    by (auto simp: bind_Inl split: list.splits dest: compute_sparse_error forward_scatter_error)
qed

section \<open>The scatter-add is linear in the values\<close>

lemma length_index_add1 [simp]: "length (index_add1 Nr Nc img u) = length img"
  by (cases u) (simp add: Let_def)

lemma length_lincomb [simp]: "length (lincomb a xs b ys) = min (length xs) (length ys)"
  by (simp add: lincomb_def)

lemma nth_lincomb:
  "n < length xs \<Longrightarrow> n < length ys \<Longrightarrow> lincomb a xs b ys ! n = a * xs ! n + b * ys ! n"
  by (simp add: lincomb_def)

lemma lincomb_update:
  "lincomb a (xs[n := x]) b (ys[n := y]) = (lincomb a xs b ys)[n := a * x + b * y]"
  by (simp add: lincomb_def zip_update map_update)

lemma update_lincomb:
  assumes "length I1 = length I2"
  shows "(lincomb a I1 b I2)[n := lincomb a I1 b I2 ! n + (a * v1 + b * v2)]
         = lincomb a (I1[n := I1 ! n + v1]) b (I2[n := I2 ! n + v2])"
proof (cases "n < length I1")
  case True
  then have "lincomb a I1 b I2 ! n + (a * v1 + b * v2) = a * (I1 ! n + v1) + b * (I2 ! n + v2)"
    using assms by (simp add: nth_lincomb algebra_simps)
  then show ?thesis by (simp add: lincomb_update)
next
  case False
  then show ?thesis using assms by (simp add: list_update_beyond)
qed

lemma index_add1_lincomb:
  assumes "length I1 = length I2"
  shows "index_add1 Nr Nc (lincomb a I1 b I2) (r, c, a * v1 + b * v2)
         = lincomb a (index_add1 Nr Nc I1 (r, c, v1)) b (index_add1 Nr Nc I2 (r, c, v2))"
  using update_lincomb[OF assms] by (simp add: Let_def)

lemma index_add_lincomb:
  assumes "length I1 = length I2"
  shows "index_add Nr Nc (lincomb a I1 b I2) (map (\<lambda>q. (r q, c q, a * v1 q + b * v2 q)) qs)
         = lincomb a (index_add Nr Nc I1 (map (\<lambda>q. (r q, c q, v1 q)) qs))
                   b (index_add Nr Nc I2 (map (\<lambda>q. (r q, c q, v2 q)) qs))"
  using assms
proof (induction qs arbitrary: I1 I2)
  case Nil
  then show ?case by (simp add: index_add_def)
next
  case (Cons q qs)
  have "length (index_add1 Nr Nc I1 (r q, c q, v1 q)) = length (index_add1 Nr Nc I2 (r q, c q, v2 q))"
    using Cons.prems by (simp only: length_index_add1)
  from Cons.IH[OF this] show ?case
    using Cons.prems by (simp add: index_add_def index_add1_lincomb del: index_add1.simps)
qed

lemma in_grid4:
  "(a, k, i, j) \<in> set (grid4 n0 n1 n2 n3) \<longleftrightarrow> a < n0 \<and> k < n1 \<and> i < n2 \<and> j < n3"
  unfolding grid4_def by (simp add: image_iff)

lemma at2_lincomb_nd:
  assumes "shape x = [n0, n1]" "shape y = [n0, n1]" "wf x" "wf y" "a' < n0" "j < n1"
  shows "at2 (lincomb_nd a x b y) a' j = a * at2 x a' j + b * at2 y a' j"
proof -
  have "a' * n1 + j < n0 * n1"
  proof -
    have "a' * n1 + j < a' * n1 + n1" using assms(6) by simp
    also have "\<dots> = Suc a' * n1" by simp
    also have "\<dots> \<le> n0 * n1" using assms(5) by (intro mult_le_mono1) simp
    finally show ?thesis .
  qed
  then show ?thesis using assms(1-4)
    by (simp add: at2_def lincomb_nd_def wf_def nth_lincomb)
qed

lemma bidx_bdim_less:
  assumes "broadcastable w n1" "j < bdim w n1"
  shows "bidx n1 j < n1"
  using assms by (auto simp: broadcastable_def bdim_def bidx_def split: if_splits)

lemma forward_tap_lincomb:
  assumes "shape x = [n0, n1]" "shape y = [n0, n1]" "wf x" "wf y"
    and "broadcastable (shape Bv ! 1) n1" "q \<in> set (grid4 n0 Nv w (bdim (shape Bv ! 1) n1))"
  shows "forward_tap Bv Cr (lincomb_nd a x b y) q
         = (fst (forward_tap Bv Cr x q), fst (snd (forward_tap Bv Cr x q)),
            a * snd (snd (forward_tap Bv Cr x q)) + b * snd (snd (forward_tap Bv Cr y q)))"
proof -
  obtain a' k i j where q: "q = (a', k, i, j)" by (cases q) auto
  have "a' < n0" "j < bdim (shape Bv ! 1) n1" using assms(6) by (auto simp: q in_grid4)
  then have "at2 (lincomb_nd a x b y) a' (bidx n1 j) = a * at2 x a' (bidx n1 j) + b * at2 y a' (bidx n1 j)"
    using at2_lincomb_nd[OF assms(1-4)] bidx_bdim_less[OF assms(5)] by blast
  then show ?thesis using assms(1,2)
    by (simp add: q forward_tap_def Let_def lincomb_nd_def algebra_simps)
qed

lemma forward_tap_positions:
  assumes "shape x = shape y"
  shows "fst (forward_tap Bv Cr x q) = fst (forward_tap Bv Cr y q)"
    and "fst (snd (forward_tap Bv Cr x q)) = fst (snd (forward_tap Bv Cr y q))"
  using assms by (cases q; simp add: forward_tap_def Let_def)+

lemma lincomb_zeros [simp]: "lincomb a (replicate n 0) b (replicate n 0) = replicate n 0"
  by (induction n) (simp_all add: lincomb_def)

lemma forward_scatter_lincomb:
  assumes "shape x = shape y" "wf x" "wf y"
  shows "forward_scatter (lincomb_nd a x b y) nr nc Bv Cr =
           (case forward_scatter x nr nc Bv Cr of
              Inl e \<Rightarrow> Inl e
            | Inr X \<Rightarrow> (case forward_scatter y nr nc Bv Cr of
                         Inl e \<Rightarrow> Inl e
                       | Inr Y \<Rightarrow> Inr (lincomb_nd a X b Y)))"
proof (cases "\<exists>n0 n1 Nv w rN rw. shape x = [n0, n1] \<and> shape Bv = [Nv, w] \<and> shape Cr = [rN, rw]
          \<and> broadcastable w n1 \<and> compat_to rN Nv \<and> compat_to rw w \<and> compat_to rw (bdim w n1)")
  case True
  then obtain n0 n1 Nv w rN rw where s: "shape x = [n0, n1]" "shape Bv = [Nv, w]" "shape Cr = [rN, rw]"
    and c: "broadcastable w n1" "compat_to rN Nv" "compat_to rw w" "compat_to rw (bdim w n1)"
    by blast
  have sy: "shape y = [n0, n1]" using s assms(1) by simp
  let ?qs = "grid4 n0 Nv w (bdim w n1)"
  have taps: "map (forward_tap Bv Cr (lincomb_nd a x b y)) ?qs
        = map (\<lambda>q. (fst (forward_tap Bv Cr x q), fst (snd (forward_tap Bv Cr x q)),
            a * snd (snd (forward_tap Bv Cr x q)) + b * snd (snd (forward_tap Bv Cr y q)))) ?qs"
    by (rule map_cong[OF refl]) (use forward_tap_lincomb[OF s(1) sy assms(2,3)] c(1) s(2) in simp)
  define r where "r q = fst (forward_tap Bv Cr x q)" for q
  define c' where "c' q = fst (snd (forward_tap Bv Cr x q))" for q
  define v1 where "v1 q = snd (snd (forward_tap Bv Cr x q))" for q
  define v2 where "v2 q = snd (snd (forward_tap Bv Cr y q))" for q
  have tx: "map (forward_tap Bv Cr x) ?qs = map (\<lambda>q. (r q, c' q, v1 q)) ?qs"
    by (simp add: r_def c'_def v1_def)
  have ty: "map (forward_tap Bv Cr y) ?qs = map (\<lambda>q. (r q, c' q, v2 q)) ?qs"
    using forward_tap_positions[OF assms(1), of Bv Cr] by (simp add: r_def c'_def v2_def)
  have tl: "map (forward_tap Bv Cr (lincomb_nd a x b y)) ?qs
              = map (\<lambda>q. (r q, c' q, a * v1 q + b * v2 q)) ?qs"
    unfolding taps by (simp add: r_def c'_def v1_def v2_def)
  have "index_add nr nc (lincomb a (replicate (nr * nc) 0) b (replicate (nr * nc) 0))
          (map (\<lambda>q. (r q, c' q, a * v1 q + b * v2 q)) ?qs)
        = lincomb a (index_add nr nc (replicate (nr * nc) 0) (map (\<lambda>q. (r q, c' q, v1 q)) ?qs))
                  b (index_add nr nc (replicate (nr * nc) 0) (map (\<lambda>q. (r q, c' q, v2 q)) ?qs))"
    by (rule index_add_lincomb) simp
  then have "index_add nr nc (replicate (nr * nc) 0) (map (forward_tap Bv Cr (lincomb_nd a x b y)) ?qs)
        = lincomb a (index_add nr nc (replicate (nr * nc) 0) (map (forward_tap Bv Cr x) ?qs))
                  b (index_add nr nc (replicate (nr * nc) 0) (map (forward_tap Bv Cr y) ?qs))"
    unfolding tl tx ty lincomb_zeros .
  then show ?thesis using s sy c
    by (simp add: forward_scatter_def Let_def lincomb_nd_def)
next
  case False
  then show ?thesis using assms(1)
    by (auto simp: forward_scatter_def Let_def lincomb_nd_def split: list.splits)
qed

lemma shape_lincomb_nd [simp]: "shape (lincomb_nd a x b y) = shape x"
  by (simp add: lincomb_nd_def)

lemma forward_lincomb:
  assumes "shape x = shape y" "wf x" "wf y"
  shows "forward_project_voxels_one_view (lincomb_nd a x b y) pis angle pp =
           (case forward_project_voxels_one_view x pis angle pp of
              Inl e \<Rightarrow> Inl e
            | Inr X \<Rightarrow> (case forward_project_voxels_one_view y pis angle pp of
                         Inl e \<Rightarrow> Inl e
                       | Inr Y \<Rightarrow> Inr (lincomb_nd a X b Y)))"
  unfolding forward_project_voxels_one_view_def
  using assms(1) forward_scatter_lincomb[OF assms]
  by (auto simp: bind_def split: list.splits sum.splits)

lemma zeros_nd_lincomb: "zeros_nd s = lincomb_nd 0 (zeros_nd s) 0 (zeros_nd s)"
  by (simp add: zeros_nd_def lincomb_nd_def)

lemma wf_zeros_nd [simp]: "wf (zeros_nd s)"
  by (simp add: wf_def zeros_nd_def)

lemma lincomb_0_0: "v \<in> set (lincomb 0 xs 0 ys) \<Longrightarrow> v = 0"
  by (auto simp: lincomb_def)

lemma forward_zeros:
  assumes "forward_project_voxels_one_view (zeros_nd s) pis angle pp = Inr Z"
  shows "\<forall>v \<in> set (flat Z). v = 0"
proof -
  have "forward_project_voxels_one_view (lincomb_nd 0 (zeros_nd s) 0 (zeros_nd s)) pis angle pp
        = Inr (lincomb_nd 0 Z 0 Z)"
    using forward_lincomb[of "zeros_nd s" "zeros_nd s" 0 0 pis angle pp] assms by simp
  then have "Z = lincomb_nd 0 Z 0 Z"
    using assms zeros_nd_lincomb[of s] by simp
  then have "flat Z = lincomb 0 (flat Z) 0 (flat Z)"
    by (metis lincomb_nd_def ndarray.sel(2))
  then show ?thesis using lincomb_0_0 by metis
qed

section \<open>The scenes evaluated\<close>

lemma jnp_round_0 [simp]: "jnp_round 0 = 0"
  by (simp add: jnp_round_def)

lemma upt_3: "[0..<3] = [0, 1, 2]"
  by (simp add: upt_rec)

lemma one_voxel_sel:
  "sinogram_shape one_voxel = [1, 1, 5]" "recon_shape one_voxel = [1, 1, 1]"
  "geometry one_voxel = scene_geometry"
  by (simp_all add: one_voxel_def)

lemma scene_sel:
  "delta_det_channel scene_geometry = 2" "delta_det_row scene_geometry = 1"
  "det_channel_offset scene_geometry = 0" "det_row_offset scene_geometry = 0"
  "det_rotation scene_geometry = 0" "source_detector_dist scene_geometry = 4"
  "magnification scene_geometry = 1" "delta_pixel_recon scene_geometry = 1"
  "recon_slice_offset scene_geometry = 0"
  by (simp_all add: scene_geometry_def)

lemma projected_geometry_one_voxel:
  "projected_geometry [0] 0 scene_geometry (1, 5) (1, 1, 1) = Inr ([0], [2], [1], [1], [1 / 2], [1])"
  by (simp add: projected_geometry_def scene_sel unravel_index_def expand_ijk_def
      map3_def recon_ijk_to_xyz_def geometry_xyz_to_uv_mag_def detector_uv_to_mn_def arctan2_def
      bind_def Let_def)

lemma compute_sparse_one_voxel:
  "compute_sparse_Bij_Cij_single_view [0] 0 one_voxel 1 =
     Inr (NDArray [1, 3] [0, 1 / 4, 0], NDArray [1, 3] [- 1, 0, 1],
          NDArray [1, 3] [0, 1, 0], NDArray [1, 3] [- 1, 0, 1])"
  unfolding compute_sparse_Bij_Cij_single_view_def one_voxel_sel Let_def
  by (simp add: projected_geometry_one_voxel[unfolded One_nat_def] bind_def sparse_axis_single
      scene_sel mk2_def upt_3 axis_value_def axis_index_def)

lemma forward_one_voxel_value:
  "forward_project_voxels_one_view (NDArray [1, 1] [v]) [0] 0 one_voxel
     = Inr (NDArray [1, 5] [v / 16, 0, 0, 0, 0])"
  unfolding forward_project_voxels_one_view_def one_voxel_sel
  by (simp add: compute_sparse_one_voxel[unfolded One_nat_def] bind_def forward_scatter_def
      broadcastable_def compat_to_def grid4_def forward_tap_def upt_3 at2_def bidx_def bdim_def
      index_add_def normalize_index_def eval_nat_numeral)

lemma two_voxels_sel:
  "sinogram_shape two_voxels = [1, 1, 5]" "recon_shape two_voxels = [1, 2, 1]"
  "geometry two_voxels = scene_geometry"
  by (simp_all add: two_voxels_def)

lemma jnp_round_2 [simp]: "jnp_round 2 = 2"
  by (simp add: jnp_round_def)

lemma one_voxel_view: "one_voxel\<lparr>sinogram_shape := 1 # shape (NDArray [1, 5] ys)\<rparr> = one_voxel"
  by (simp add: one_voxel_def)

lemma back_one_voxel_1:
  "back_project_one_view_to_voxel (NDArray [1, 5] [y0, y1, y2, y3, y4]) [0] 0 one_voxel 1
     = Inr [(y1 - y4) / 4]"
  unfolding back_project_one_view_to_voxel_def Let_def one_voxel_view
  by (simp add: compute_sparse_one_voxel[unfolded One_nat_def] bind_def back_gather_def
        compat_to_def upt_3 at2_def bidx_def clamp_index_def normalize_index_def)

lemma back_one_voxel_2:
  "back_project_one_view_to_voxel (NDArray [1, 5] [y0, y1, y2, y3, y4]) [0] 0 one_voxel 2
     = Inr [(y1 + y4) / 16]"
  unfolding back_project_one_view_to_voxel_def Let_def one_voxel_view
  by (simp add: compute_sparse_one_voxel[unfolded One_nat_def] bind_def back_gather_def
        compat_to_def upt_3 at2_def bidx_def clamp_index_def normalize_index_def power2_eq_square)

lemma spec_back_one_voxel:
  "spec_back (NDArray [1, 3] [0, 1 / 4, 0]) (NDArray [1, 3] [- 1, 0, 1])
             (NDArray [1, 3] [0, 1, 0]) (NDArray [1, 3] [- 1, 0, 1])
             (NDArray [1, 5] [y0, y1, y2, y3, y4]) (Suc cp) = [y0 * (1 / 4) ^ Suc cp]"
  by (simp add: spec_back_def upt_3 at2_def clamp_index_def normalize_index_def)

lemma spec_forward_one_voxel:
  "spec_forward (NDArray [1, 3] [0, 1 / 4, 0]) (NDArray [1, 3] [- 1, 0, 1])
             (NDArray [1, 3] [0, 1, 0]) (NDArray [1, 3] [- 1, 0, 1]) [v] 1 5 = [v / 4, 0, 0, 0, 0]"
  by (simp add: spec_forward_def upt_3 at2_def index_add_def normalize_index_def eval_nat_numeral)

lemma compute_sparse_two_voxels:
  "compute_sparse_Bij_Cij_single_view [0, 1] 0 two_voxels 1 = Inl (ValueError Truth_value)"
  unfolding compute_sparse_Bij_Cij_single_view_def two_voxels_sel Let_def
  by (simp add: projected_geometry_def scene_sel unravel_index_def expand_ijk_def
      map3_def recon_ijk_to_xyz_def geometry_xyz_to_uv_mag_def bind_def Let_def)

lemma sparse_axis_two_rows:
  "sparse_axis 1 [m1, m2] [w1, w2] [c1, c2] dpr dd nd = Inl (ValueError Broadcast)"
  by (simp add: sparse_axis_def Let_def broadcast2_def row_def column_def bind_def
      broadcastable_def bdim_def)

lemma projected_geometry_quarter_turn:
  "projected_geometry [0] (pi / 4) scene_geometry (1, 5) (1, 1, 1)
     = Inr ([0], [2], [sqrt 2 / 2], [1], [sqrt 2 / 4], [1])"
  by (simp add: projected_geometry_def scene_sel unravel_index_def expand_ijk_def
      map3_def recon_ijk_to_xyz_def geometry_xyz_to_uv_mag_def detector_uv_to_mn_def arctan2_def
      bind_def Let_def cos_45 sin_45)

lemma row_axis_quarter_turn:
  "mk2 (Suc 0) 3 (\<lambda>k. axis_value 1 0 1 (sqrt 2 / 2) 1 1 1) = NDArray [1, 3] [0, sqrt 2, 0]"
  by (simp add: mk2_def upt_3 axis_value_def axis_index_def real_div_sqrt)

lemma index_axis_0: "mk2 (Suc 0) 3 (\<lambda>k. axis_index 1 0) = NDArray [1, 3] [- 1, 0, 1]"
  by (simp add: mk2_def upt_3 axis_index_def)

lemma compute_sparse_quarter_turn:
  "\<exists>Bij_value. compute_sparse_Bij_Cij_single_view [0] (pi / 4) one_voxel 1
     = Inr (Bij_value, NDArray [1, 3] [- 1, 0, 1], NDArray [1, 3] [0, sqrt 2, 0],
            NDArray [1, 3] [- 1, 0, 1])"
  unfolding compute_sparse_Bij_Cij_single_view_def one_voxel_sel Let_def
  by (simp add: projected_geometry_quarter_turn[unfolded One_nat_def] bind_def sparse_axis_single
      scene_sel row_axis_quarter_turn[unfolded One_nat_def] index_axis_0[unfolded One_nat_def])

section \<open>Input validation\<close>

text \<open>
  Claim C9. The forward projector raises the shape error of line 152 exactly for the
  \<open>voxel_values\<close> whose rank is not 2, whatever the indices, the angle and the projector
  parameters are: the test comes before every other step, and no later step raises that
  error for an array of rank 2. The error is a ValueError, which the specification files
  as an InputShapeError.
\<close>
theorem forward_rejects_other_ranks:
  "forward_project_voxels_one_view voxel_values pixel_indices angle pp = Inl (ValueError Voxel_values_shape)
     \<longleftrightarrow> length (shape voxel_values) \<noteq> 2"
  using forward_rank2_error[of voxel_values pixel_indices angle pp]
  by (auto simp: forward_project_voxels_one_view_def)

theorem forward_rejects_other_ranks_witness:
  "forward_project_voxels_one_view (NDArray [3] [1, 2, 3]) [0] 0 one_voxel = Inl (ValueError Voxel_values_shape)
   \<and> forward_project_voxels_one_view (NDArray [1, 1, 1] [1]) [0] 0 one_voxel = Inl (ValueError Voxel_values_shape)
   \<and> forward_project_voxels_one_view (NDArray [1, 1] [1]) [0] 0 one_voxel \<noteq> Inl (ValueError Voxel_values_shape)"
  using forward_rejects_other_ranks[of "NDArray [3] [1, 2, 3]" "[0]" 0 one_voxel]
        forward_rejects_other_ranks[of "NDArray [1, 1, 1] [1]" "[0]" 0 one_voxel]
        forward_rejects_other_ranks[of "NDArray [1, 1] [1]" "[0]" 0 one_voxel]
  by simp

text \<open>
  Claim C7. When the check of the base class passes, \<open>verify_valid_params\<close> raises
  exactly when the number of rows of the view parameter array differs from the number of
  views (line 63) or the number of recon slices differs from the number of detector rows
  (line 69); an \<open>angles\<close> vector of length 16 with 32 views is rejected. The check reads
  the parameters only, no projection is part of it. Both errors are ValueErrors, which the
  specification files as ConfigurationErrors.
\<close>
theorem verify_valid_params_raises:
  "(verify_valid_params (Inr ()) (view_params_array angles) (views, det_rows, det_channels)
      (rows, cols, slices) = Inl e
    \<longleftrightarrow> (length angles \<noteq> views \<and> e = ValueError View_count)
        \<or> (length angles = views \<and> slices \<noteq> det_rows \<and> e = ValueError Recon_slices))
   \<and> (length angles = 16 \<longrightarrow>
        verify_valid_params (Inr ()) (view_params_array angles) (32, det_rows, det_channels)
          (rows, cols, slices) = Inl (ValueError View_count))"
  by (auto simp: verify_valid_params_def view_params_array_def column_def bind_def)

theorem verify_valid_params_raises_witness:
  "verify_valid_params (Inr ()) (view_params_array (replicate 16 0)) (32, 32, 64) (64, 64, 32)
     = Inl (ValueError View_count)
   \<and> verify_valid_params (Inr ()) (view_params_array (replicate 32 0)) (32, 32, 64) (64, 64, 31)
     = Inl (ValueError Recon_slices)
   \<and> verify_valid_params (Inr ()) (view_params_array (replicate 32 0)) (32, 32, 64) (64, 64, 32)
     = Inr ()"
  using verify_valid_params_raises[of "replicate 16 0" 32 32 64 64 64 32 "ValueError View_count"]
        verify_valid_params_raises[of "replicate 32 0" 32 32 64 64 64 31 "ValueError Recon_slices"]
        verify_valid_params_raises[of "replicate 32 0" 32 32 64 64 64 32]
  by (cases "verify_valid_params (Inr ()) (view_params_array (replicate 32 0)) (32, 32, 64) (64, 64, 32)")
     auto

section \<open>Shapes of the kernel arrays\<close>

text \<open>
  Claim C8 (the code departs from it). The claim gives the four arrays the shape
  \<open>(N * num_slices, 2p+1)\<close> for every number \<open>N\<close> of voxel indices. For two voxels in
  one slice the builder returns no arrays: the truth test of line 218 is on an array of two
  elements and raises, and the subtraction and maximum of lines 322 and 345 cannot
  broadcast a vector of two widths against an array of two rows of three candidates.
  The slice index does vary fastest in the expansion of lines 262 to 264
  (\<open>expand_ijk_slice_fastest\<close>).
\<close>
theorem builder_raises_for_two_voxels:
  "compute_sparse_Bij_Cij_single_view [0, 1] 0 two_voxels 1 = Inl (ValueError Truth_value)
   \<and> (\<forall>m1 m2 w1 w2 c1 c2 dpr dd nd.
         sparse_axis 1 [m1, m2] [w1, w2] [c1, c2] dpr dd nd = Inl (ValueError Broadcast))"
  using compute_sparse_two_voxels sparse_axis_two_rows by simp

section \<open>Candidate indices\<close>

text \<open>
  Claim C4 (the code departs from it). The claim centres the channel candidates at the
  rounding of the fractional channel coordinate \<open>n\<close>. For the one voxel of the scene the
  coordinates are \<open>m = 0\<close> and \<open>n = 2\<close>; line 308 rounds \<open>mp\<close>, the row coordinate, so
  the builder returns the channel candidates \<open>-1, 0, 1\<close>, where the claim gives
  \<open>1, 2, 3\<close>. The row candidates are centred at the rounding of \<open>m\<close>, as claimed.
\<close>
theorem channel_candidates_from_row_coordinate:
  "projected_geometry [0] 0 scene_geometry (1, 5) (1, 1, 1) = Inr ([0], [2], [1], [1], [1 / 2], [1])
   \<and> compute_sparse_Bij_Cij_single_view [0] 0 one_voxel 1
       = Inr (NDArray [1, 3] [0, 1 / 4, 0], NDArray [1, 3] [- 1, 0, 1],
              NDArray [1, 3] [0, 1, 0], NDArray [1, 3] [- 1, 0, 1])
   \<and> spec_candidates 1 2 = [1, 2, 3]
   \<and> spec_candidates 1 0 = [- 1, 0, 1]"
  using projected_geometry_one_voxel compute_sparse_one_voxel
  by (simp add: spec_candidates_def upt_3)

section \<open>Kernel weights\<close>

text \<open>
  Claim C5 (the code departs from it). The claim gives the row weight the divisor
  \<open>cos_alpha_row\<close>. At the view angle \<open>pi / 4\<close> the voxel of the scene has
  \<open>cos_alpha_col = sqrt 2 / 2\<close> and \<open>cos_alpha_row = 1\<close>; line 348 divides by
  \<open>cos_alpha_col\<close>, so the central row weight is \<open>sqrt 2\<close>, where the claim gives 1.
\<close>
theorem row_weight_with_channel_cos_alpha:
  "projected_geometry [0] (pi / 4) scene_geometry (1, 5) (1, 1, 1)
     = Inr ([0], [2], [sqrt 2 / 2], [1], [sqrt 2 / 4], [1])
   \<and> (\<exists>Bij_value. compute_sparse_Bij_Cij_single_view [0] (pi / 4) one_voxel 1
         = Inr (Bij_value, NDArray [1, 3] [- 1, 0, 1], NDArray [1, 3] [0, sqrt 2, 0],
                NDArray [1, 3] [- 1, 0, 1]))
   \<and> spec_weight (delta_pixel_recon scene_geometry) 1 (spec_overlap 1 0 0)
         (delta_det_row scene_geometry) = 1
   \<and> sqrt 2 \<noteq> 1"
  using projected_geometry_quarter_turn compute_sparse_quarter_turn
  by (simp add: spec_weight_def spec_overlap_def scene_sel)

section \<open>What the projectors accumulate\<close>

text \<open>
  Claim C2 (the code departs from it). The claim scatters the outer product of the
  channel weights and the row weights to \<open>(Cij_row, Bij_channel)\<close>. Line 167 multiplies
  \<open>Bij_value\<close> with itself and lines 170 and 171 take both indices from \<open>Cij_row\<close>: for
  the voxel of the scene, of value 1, the view has \<open>1 / 16\<close> in its first cell, where the
  claim gives \<open>1 / 4\<close>.
\<close>
theorem forward_outer_product_of_channel_weights:
  "compute_sparse_Bij_Cij_single_view [0] 0 one_voxel 1
       = Inr (NDArray [1, 3] [0, 1 / 4, 0], NDArray [1, 3] [- 1, 0, 1],
              NDArray [1, 3] [0, 1, 0], NDArray [1, 3] [- 1, 0, 1])
   \<and> forward_project_voxels_one_view (NDArray [1, 1] [1]) [0] 0 one_voxel
       = Inr (NDArray [1, 5] [1 / 16, 0, 0, 0, 0])
   \<and> spec_forward (NDArray [1, 3] [0, 1 / 4, 0]) (NDArray [1, 3] [- 1, 0, 1])
         (NDArray [1, 3] [0, 1, 0]) (NDArray [1, 3] [- 1, 0, 1]) [1] 1 5 = [1 / 4, 0, 0, 0, 0]"
  using compute_sparse_one_voxel forward_one_voxel_value[of 1] spec_forward_one_voxel[of 1]
  by simp

text \<open>
  Claim C3 (the code departs from it). The claim weights a gathered detector value by
  \<open>(Bij_value * Cij_value) ^ coeff_power\<close>. Line 127 expands \<open>Cij_row\<close>, the row index,
  in the place of \<open>Cij_value\<close>: for the view that is 1 in channel 1 and 0 elsewhere the
  back projection is \<open>1 / 4\<close> (and \<open>1 / 16\<close> for \<open>coeff_power = 2\<close>), where the claim
  gives 0. The power is applied to each weight before the sum, as claimed.
\<close>
theorem back_weights_by_row_index:
  "compute_sparse_Bij_Cij_single_view [0] 0 one_voxel 1
       = Inr (NDArray [1, 3] [0, 1 / 4, 0], NDArray [1, 3] [- 1, 0, 1],
              NDArray [1, 3] [0, 1, 0], NDArray [1, 3] [- 1, 0, 1])
   \<and> back_project_one_view_to_voxel (NDArray [1, 5] [0, 1, 0, 0, 0]) [0] 0 one_voxel 1 = Inr [1 / 4]
   \<and> spec_back (NDArray [1, 3] [0, 1 / 4, 0]) (NDArray [1, 3] [- 1, 0, 1])
         (NDArray [1, 3] [0, 1, 0]) (NDArray [1, 3] [- 1, 0, 1])
         (NDArray [1, 5] [0, 1, 0, 0, 0]) 1 = [0]
   \<and> back_project_one_view_to_voxel (NDArray [1, 5] [0, 1, 0, 0, 0]) [0] 0 one_voxel 2 = Inr [1 / 16]
   \<and> spec_back (NDArray [1, 3] [0, 1 / 4, 0]) (NDArray [1, 3] [- 1, 0, 1])
         (NDArray [1, 3] [0, 1, 0]) (NDArray [1, 3] [- 1, 0, 1])
         (NDArray [1, 5] [0, 1, 0, 0, 0]) 2 = [0]"
  using compute_sparse_one_voxel back_one_voxel_1[of 0 1 0 0 0] back_one_voxel_2[of 0 1 0 0 0]
    spec_back_one_voxel[of 0 1 0 0 0 0] spec_back_one_voxel[of 0 1 0 0 0 1]
  by (simp add: numeral_2_eq_2)

text \<open>
  Claim C1 (the code departs from it). For the voxel value \<open>x = 1\<close> and the view \<open>y\<close>
  that is 1 in channel 0 and 0 elsewhere, the inner product of the forward projection of
  \<open>x\<close> with \<open>y\<close> is \<open>1 / 16\<close>, and the inner product of \<open>x\<close> with the back projection
  of \<open>y\<close> is 0.
\<close>
theorem forward_back_not_adjoint:
  "forward_project_voxels_one_view (NDArray [1, 1] [1]) [0] 0 one_voxel
       = Inr (NDArray [1, 5] [1 / 16, 0, 0, 0, 0])
   \<and> back_project_one_view_to_voxel (NDArray [1, 5] [1, 0, 0, 0, 0]) [0] 0 one_voxel 1 = Inr [0]
   \<and> dot [1 / 16, 0, 0, 0, 0] [1, 0, 0, 0, 0] = 1 / 16
   \<and> dot [1] [0] = 0"
  using forward_one_voxel_value[of 1] back_one_voxel_1[of 1 0 0 0 0]
  by (simp add: dot_def)

section \<open>The code as it stands returns nothing\<close>


lemma forward_as_written_raises:
  "forward_project_voxels_one_view_as_written builder voxel_values pixel_indices angle pp \<noteq> Inr V"
  unfolding forward_project_voxels_one_view_as_written_def
  by (cases "builder pixel_indices angle pp 1")
     (auto simp: bind_def split: list.splits prod.splits if_splits)


text \<open>
  Claim C10 (the code departs from it). The claim gives an all-zero \<open>voxel_values\<close> an
  all-zero detector view. For the all-zero array of shape \<open>(1, 1)\<close> and the voxel of the
  scene the forward projector returns no view: the builder it calls raises as decorated,
  and with the eager body of the builder line 175 raises, the call of a method that a
  JAX array does not have. It returns a view for no input, whatever the builder returns.
  With the calls of lines 175, 176 and 180 replaced by \<^verbatim>\<open>jnp.broadcast_to\<close> and a
  scatter-add, the projector is linear in \<open>voxel_values\<close> (\<open>forward_lincomb\<close>,
  \<open>forward_zeros\<close>).
\<close>
theorem forward_returns_no_view:
  "forward_project_voxels_one_view_as_written compute_sparse_Bij_Cij_single_view_jit
     (zeros_nd [1, 1]) [0] 0 one_voxel = Inl TracerError
   \<and> forward_project_voxels_one_view_as_written compute_sparse_Bij_Cij_single_view
     (zeros_nd [1, 1]) [0] 0 one_voxel = Inl AttributeError
   \<and> (\<forall>builder voxel_values pixel_indices angle pp V.
         forward_project_voxels_one_view_as_written builder voxel_values pixel_indices angle pp
           \<noteq> Inr V)"
  using forward_as_written_raises
  by (simp add: forward_project_voxels_one_view_as_written_def zeros_nd_def one_voxel_sel
      compute_sparse_Bij_Cij_single_view_jit_def concrete_def bind_def
      compute_sparse_one_voxel[unfolded One_nat_def] broadcastable_def)

end
